theory Spec2Isabelle
  imports Complex_Main
begin

section \<open>Wallet inspection over a chain-indexing service (src/alchemy.mts)\<close>

text \<open>
  The script is TypeScript that runs as JavaScript, so the model follows the
  run-time behaviour: values carry their dynamic type, a property read on
  \<open>undefined\<close> raises a TypeError, conditions test truthiness, \<open>!==\<close> is strict and
  \<open>!=\<close> is loose equality, and a read of a property that an object does not own goes
  to its prototype. Every function that can raise returns \<open>exn + 'a\<close> (\<open>Inl\<close> the
  exception). Calls of the external service are function parameters that return \<open>None\<close>
  when the call is rejected. Console output is not modelled.
\<close>

subsection \<open>JavaScript values\<close>

text \<open>
  A number is an IEEE double. It is represented by the value it denotes: the rational
  of a finite double (the two zeros coincide, as they do under every comparison made
  here), the two infinities and NaN.
\<close>

datatype jsnum = NaN | PosInf | NegInf | Fin rat

text \<open>
  The primitive values that metadata properties and trait values hold. A string is the
  sequence of its bytes in UTF-8, so that equal strings are equal lists and the empty
  string is the empty list.
\<close>

datatype jsval = JUndefined | JNull | JBool bool | JNum jsnum | JStr string

datatype exn = TypeError | SyntaxError | ExternalFailure

text \<open>
  The objects that a property read reaches through the prototype of a plain object:
  \<open>Object.prototype\<close> itself, and its native functions, each known by its name. A
  property read yields a primitive or one of these.
\<close>

datatype builtin = ObjectPrototype | NativeFunction string

datatype propval = Prim jsval | Inherited builtin

text \<open>
  The built-in conversions of the language that the script calls and that depend on
  the double representation or on the number grammar. They are parameters of the model.
  \<^item> \<open>StringToNumber\<close>: \<open>Number(s)\<close>, unary \<open>+s\<close> and the coercion inside \<open>==\<close>;
  \<^item> \<open>NumberToString\<close>: \<open>Number.prototype.toString\<close>;
  \<^item> \<open>StringToBigInt\<close>: \<open>BigInt(s)\<close>, \<open>None\<close> when it raises a SyntaxError;
  \<^item> \<open>num_add\<close>: addition of doubles;
  \<^item> \<open>toLowerCase\<close>: \<open>String.prototype.toLowerCase\<close>, which follows the Unicode case
    mapping of every character;
  \<^item> \<open>NativeFunctionString\<close>: the source text that \<open>Function.prototype.toString\<close> gives
    for the native function of a name, which the implementation chooses.
\<close>

record runtime =
  StringToNumber :: "string \<Rightarrow> jsnum"
  NumberToString :: "jsnum \<Rightarrow> string"
  StringToBigInt :: "string \<Rightarrow> int option"
  num_add :: "jsnum \<Rightarrow> jsnum \<Rightarrow> jsnum"
  toLowerCase :: "string \<Rightarrow> string"
  NativeFunctionString :: "string \<Rightarrow> string"

text \<open>\<open>isNaN\<close> on a number.\<close>

definition isNaN :: "jsnum \<Rightarrow> bool" where
  "isNaN n = (n = NaN)"

text \<open>ToBoolean: what \<open>if (v)\<close>, \<open>!v\<close> and \<open>a && b\<close> test.\<close>

fun truthy :: "jsval \<Rightarrow> bool" where
  "truthy JUndefined = False"
| "truthy JNull = False"
| "truthy (JBool b) = b"
| "truthy (JNum n) = (n \<noteq> NaN \<and> n \<noteq> Fin 0)"
| "truthy (JStr s) = (s \<noteq> [])"

text \<open>Strict equality \<open>===\<close>: same type and same value, and NaN equals nothing.\<close>

fun strict_eq :: "jsval \<Rightarrow> jsval \<Rightarrow> bool" where
  "strict_eq (JNum a) (JNum b) = (a \<noteq> NaN \<and> b \<noteq> NaN \<and> a = b)"
| "strict_eq a b = (a = b)"

text \<open>
  Loose equality \<open>==\<close> on primitives: a boolean operand is first turned into the
  number 1 or 0; then \<open>null\<close> and \<open>undefined\<close> equal each other and nothing else, a
  number and a string are compared after \<open>StringToNumber\<close>, and two values of one type
  are compared strictly.
\<close>

fun bool_to_number :: "jsval \<Rightarrow> jsval" where
  "bool_to_number (JBool b) = JNum (Fin (if b then 1 else 0))"
| "bool_to_number v = v"

fun loose_eq_prim :: "runtime \<Rightarrow> jsval \<Rightarrow> jsval \<Rightarrow> bool" where
  "loose_eq_prim rt JUndefined JNull = True"
| "loose_eq_prim rt JNull JUndefined = True"
| "loose_eq_prim rt (JNum a) (JStr s) = strict_eq (JNum a) (JNum (StringToNumber rt s))"
| "loose_eq_prim rt (JStr s) (JNum b) = strict_eq (JNum (StringToNumber rt s)) (JNum b)"
| "loose_eq_prim rt a b = strict_eq a b"

definition loose_eq :: "runtime \<Rightarrow> jsval \<Rightarrow> jsval \<Rightarrow> bool" where
  "loose_eq rt a b = loose_eq_prim rt (bool_to_number a) (bool_to_number b)"

text \<open>
  \<open>v.toString()\<close> on a primitive; \<open>None\<close> is the TypeError of a property read on
  \<open>undefined\<close> or \<open>null\<close>.
\<close>

fun toString :: "runtime \<Rightarrow> jsval \<Rightarrow> string option" where
  "toString rt JUndefined = None"
| "toString rt JNull = None"
| "toString rt (JBool b) = Some (if b then ''true'' else ''false'')"
| "toString rt (JNum n) = Some (NumberToString rt n)"
| "toString rt (JStr s) = Some s"

text \<open>
  The properties of \<open>Object.prototype\<close>, which every plain object inherits: the accessor
  \<open>__proto__\<close>, whose getter returns the prototype, \<open>constructor\<close>, which is the function
  \<open>Object\<close>, and ten more native functions.
\<close>

definition inherited :: "string \<Rightarrow> builtin option" where
  "inherited k =
     (if k = ''__proto__'' then Some ObjectPrototype
      else if k = ''constructor'' then Some (NativeFunction ''Object'')
      else if k \<in> set [''__defineGetter__'', ''__defineSetter__'', ''__lookupGetter__'',
                        ''__lookupSetter__'', ''hasOwnProperty'', ''isPrototypeOf'',
                        ''propertyIsEnumerable'', ''toLocaleString'', ''toString'', ''valueOf'']
      then Some (NativeFunction k)
      else None)"

text \<open>
  ToPrimitive on these objects: \<open>valueOf\<close> returns the object itself, so the result is
  that of \<open>toString\<close>.
\<close>

definition to_primitive :: "runtime \<Rightarrow> builtin \<Rightarrow> jsval" where
  "to_primitive rt b =
     (case b of
        ObjectPrototype \<Rightarrow> JStr ''[object Object]''
      | NativeFunction name \<Rightarrow> JStr (NativeFunctionString rt name))"

text \<open>
  \<open>===\<close> and \<open>==\<close> between the result of a property read and a primitive. An object is
  strictly equal to no primitive; \<open>==\<close> compares its primitive form.
\<close>

definition strict_eq_prop :: "propval \<Rightarrow> jsval \<Rightarrow> bool" where
  "strict_eq_prop p v = (case p of Prim w \<Rightarrow> strict_eq w v | Inherited b \<Rightarrow> False)"

definition loose_eq_prop :: "runtime \<Rightarrow> propval \<Rightarrow> jsval \<Rightarrow> bool" where
  "loose_eq_prop rt p v =
     (case p of Prim w \<Rightarrow> loose_eq rt w v | Inherited b \<Rightarrow> loose_eq rt (to_primitive rt b) v)"

subsection \<open>Metadata records\<close>

text \<open>
  \<open>NftMetadata\<close> is an open object with an optional \<open>attributes\<close> array. \<open>props\<close> are
  its own properties other than \<open>attributes\<close>, in property order, with primitive values;
  \<open>attributes\<close> is \<open>None\<close> when the property is missing. A trait is an object of which
  the script reads \<open>trait_type\<close> and \<open>value\<close>; a missing property reads as \<open>undefined\<close>.
  A record or filter that is itself \<open>undefined\<close> or \<open>null\<close> is \<open>None :: metadata option\<close>.
  The keys of an object are distinct; no property below depends on it. Records and
  filters are plain objects: their prototype is \<open>Object.prototype\<close>.
\<close>

record attr =
  trait_type :: jsval
  attr_value :: jsval

record metadata =
  props :: "(string \<times> jsval) list"
  attributes :: "attr list option"

text \<open>
  A property read \<open>obj[k]\<close> on a plain object with the own properties \<open>fs\<close>: the own
  property if there is one, else what \<open>Object.prototype\<close> has under that name, else
  \<open>undefined\<close>.
\<close>

definition read_property :: "(string \<times> jsval) list \<Rightarrow> string \<Rightarrow> propval" where
  "read_property fs k =
     (case map_of fs k of
        Some v \<Rightarrow> Prim v
      | None \<Rightarrow> (case inherited k of Some b \<Rightarrow> Inherited b | None \<Rightarrow> Prim JUndefined))"

text \<open>
  The read \<open>obj.tokenId\<close>: \<open>Object.prototype\<close> has no property of that name, so the
  result is the own property or \<open>undefined\<close>.
\<close>

definition get_field :: "(string \<times> jsval) list \<Rightarrow> string \<Rightarrow> jsval" where
  "get_field fs k = (case map_of fs k of None \<Rightarrow> JUndefined | Some v \<Rightarrow> v)"

text \<open>
  \<open>nftMetadata[k] !== v\<close> for a primitive \<open>v\<close>. Under the key \<open>attributes\<close> the record
  holds its array, an object, which is strictly equal to no primitive.
\<close>

definition field_differs :: "metadata \<Rightarrow> string \<Rightarrow> jsval \<Rightarrow> bool" where
  "field_differs m k v =
     (if k = ''attributes''
      then (case attributes m of None \<Rightarrow> \<not> strict_eq JUndefined v | Some ra \<Rightarrow> True)
      else \<not> strict_eq_prop (read_property (props m) k) v)"

text \<open>Assignment \<open>{...obj, k: v}\<close>: an existing property keeps its place.\<close>

fun set_field :: "string \<Rightarrow> jsval \<Rightarrow> (string \<times> jsval) list \<Rightarrow> (string \<times> jsval) list" where
  "set_field k v [] = [(k, v)]"
| "set_field k v (p # ps) = (if fst p = k then (k, v) # ps else p # set_field k v ps)"

subsection \<open>filterNFTMetadata (lines 28-84)\<close>

text \<open>Lines 37-39: the filter's entries other than \<open>attributes\<close>.\<close>

definition topLevelAttrs :: "metadata \<Rightarrow> (string \<times> jsval) list" where
  "topLevelAttrs filterMetadata = filter (\<lambda>(k, v). k \<noteq> ''attributes'') (props filterMetadata)"

text \<open>
  Lines 42-46. \<open>Inr False\<close> is the \<open>return false\<close> inside the loop, \<open>Inr True\<close> is
  the loop running to its end. The read \<open>nftMetadata[...]\<close> raises when the record is
  absent.
\<close>

fun top_level_loop :: "runtime \<Rightarrow> metadata option \<Rightarrow> (string \<times> jsval) list \<Rightarrow> exn + bool" where
  "top_level_loop rt nftMetadata [] = Inr True"
| "top_level_loop rt nftMetadata ((k, v) # rest) =
     (case nftMetadata of
        None \<Rightarrow> Inl TypeError
      | Some m \<Rightarrow>
          if field_differs m (toLowerCase rt k) v then Inr False
          else top_level_loop rt nftMetadata rest)"

text \<open>
  Lines 49-58: \<open>True\<close> when one of the two \<open>return false\<close> is taken. An array is
  truthy even when empty, so the outer test is on its length alone.
\<close>

definition attributes_rejected :: "metadata option \<Rightarrow> metadata \<Rightarrow> bool" where
  "attributes_rejected nftMetadata filterMetadata =
     (case attributes filterMetadata of
        None \<Rightarrow> False
      | Some fa \<Rightarrow>
          if length fa > 0 then
            (case nftMetadata of
               None \<Rightarrow> True
             | Some m \<Rightarrow>
                 (case attributes m of
                    None \<Rightarrow> True
                  | Some ra \<Rightarrow> length fa > length ra))
          else False)"

text \<open>
  Line 70: \<open>nestedAttrs\<close> starts as the plain object \<open>{}\<close>. It is modelled by its own
  properties and by whether its prototype has been set to \<open>null\<close>.
\<close>

record plain_object =
  own :: "string \<rightharpoonup> jsval"
  proto_is_null :: bool

definition empty_object :: plain_object where
  "empty_object = \<lparr>own = Map.empty, proto_is_null = False\<rparr>"

text \<open>
  The assignment \<open>nestedAttrs[k] = v\<close> of a primitive \<open>v\<close>. Under the key \<open>__proto__\<close> it
  calls the setter of \<open>Object.prototype\<close>, which sets the prototype to \<open>null\<close> when \<open>v\<close> is
  \<open>null\<close> and ignores any other primitive. Every other assignment, and the one to
  \<open>__proto__\<close> once the prototype is \<open>null\<close>, creates or overwrites an own property.
\<close>

definition assign :: "plain_object \<Rightarrow> string \<Rightarrow> jsval \<Rightarrow> plain_object" where
  "assign obj k v =
     (if k = ''__proto__'' \<and> \<not> proto_is_null obj
      then (if v = JNull then obj\<lparr>proto_is_null := True\<rparr> else obj)
      else obj\<lparr>own := (own obj)(k \<mapsto> v)\<rparr>)"

text \<open>The read \<open>nestedAttrs[k]\<close>.\<close>

definition read_nested :: "plain_object \<Rightarrow> string \<Rightarrow> propval" where
  "read_nested obj k =
     (case own obj k of
        Some v \<Rightarrow> Prim v
      | None \<Rightarrow>
          if proto_is_null obj then Prim JUndefined
          else (case inherited k of Some b \<Rightarrow> Inherited b | None \<Rightarrow> Prim JUndefined))"

text \<open>
  Lines 71-73: the traits are assigned in list order, so a later trait of the same
  lower-cased name overwrites an earlier one. \<open>.toLowerCase()\<close> exists on strings only.
\<close>

fun build_nestedAttrs :: "runtime \<Rightarrow> attr list \<Rightarrow> plain_object \<Rightarrow> exn + plain_object" where
  "build_nestedAttrs rt [] nestedAttrs = Inr nestedAttrs"
| "build_nestedAttrs rt (nftAttr # rest) nestedAttrs =
     (case trait_type nftAttr of
        JStr s \<Rightarrow> build_nestedAttrs rt rest (assign nestedAttrs (toLowerCase rt s) (attr_value nftAttr))
      | _ \<Rightarrow> Inl TypeError)"

text \<open>Lines 74-81.\<close>

fun compare_nested :: "runtime \<Rightarrow> plain_object \<Rightarrow> attr list \<Rightarrow> exn + bool" where
  "compare_nested rt nestedAttrs [] = Inr True"
| "compare_nested rt nestedAttrs (filterAttr # rest) =
     (case trait_type filterAttr of
        JStr s \<Rightarrow>
          if \<not> loose_eq_prop rt (read_nested nestedAttrs (toLowerCase rt s)) (attr_value filterAttr)
          then Inr False
          else compare_nested rt nestedAttrs rest
      | _ \<Rightarrow> Inl TypeError)"

text \<open>Lines 66-83, for a record that exists.\<close>

definition nested_check :: "runtime \<Rightarrow> metadata \<Rightarrow> metadata \<Rightarrow> exn + bool" where
  "nested_check rt m filterMetadata =
     (case (attributes m, attributes filterMetadata) of
        (Some ra, Some fa) \<Rightarrow>
          (case build_nestedAttrs rt ra empty_object of
             Inl e \<Rightarrow> Inl e
           | Inr nestedAttrs \<Rightarrow> compare_nested rt nestedAttrs fa)
      | _ \<Rightarrow> Inr True)"

definition filterNFTMetadata :: "runtime \<Rightarrow> metadata option \<Rightarrow> metadata option \<Rightarrow> exn + bool" where
  "filterNFTMetadata rt nftMetadata filterMetadata =
     (case filterMetadata of
        None \<Rightarrow> Inr True
      | Some f \<Rightarrow>
          (case top_level_loop rt nftMetadata (topLevelAttrs f) of
             Inl e \<Rightarrow> Inl e
           | Inr passed \<Rightarrow>
               if \<not> passed then Inr False
               else if attributes_rejected nftMetadata f then Inr False
               else (case nftMetadata of
                       None \<Rightarrow> Inr False
                     | Some m \<Rightarrow> nested_check rt m f)))"

subsection \<open>erc20 (lines 87-110)\<close>

record TokenAmount =
  ta_balance :: int
  ta_decimals :: jsnum

text \<open>
  An entry of \<open>getTokenBalances\<close>: \<open>tokenBalance\<close> is a string, or \<open>null\<close> (\<open>None\<close>) when
  the service reports an error for the contract. \<open>decimals\<close> of the token metadata is a
  number or \<open>null\<close>.
\<close>

record tokenBalanceEntry =
  tb_contractAddress :: string
  tb_tokenBalance :: "string option"

record tokenMetadata =
  decimals :: "jsnum option"

text \<open>Lines 96-109: the first entry that passes the three tests is returned.\<close>

fun erc20_loop :: "runtime \<Rightarrow> string \<Rightarrow> jsnum option \<Rightarrow> tokenBalanceEntry list \<Rightarrow> exn + TokenAmount" where
  "erc20_loop rt contractAddress dec [] = Inr \<lparr>ta_balance = 0, ta_decimals = Fin 0\<rparr>"
| "erc20_loop rt contractAddress dec (tb # rest) =
     (case (tb_tokenBalance tb, dec) of
        (Some s, Some d) \<Rightarrow>
          if tb_contractAddress tb = contractAddress \<and> truthy (JStr s) \<and> truthy (JNum d)
          then (case StringToBigInt rt s of
                  None \<Rightarrow> Inl SyntaxError
                | Some n \<Rightarrow> Inr \<lparr>ta_balance = n, ta_decimals = d\<rparr>)
          else erc20_loop rt contractAddress dec rest
      | _ \<Rightarrow> erc20_loop rt contractAddress dec rest)"

definition erc20 ::
  "runtime \<Rightarrow> (string \<Rightarrow> tokenMetadata option) \<Rightarrow> (string \<Rightarrow> string list \<Rightarrow> tokenBalanceEntry list option)
     \<Rightarrow> string option \<Rightarrow> string \<Rightarrow> exn + TokenAmount" where
  "erc20 rt getTokenMetadata getTokenBalances walletAddress contractAddress =
     (case walletAddress of
        None \<Rightarrow> Inr \<lparr>ta_balance = 0, ta_decimals = Fin 0\<rparr>
      | Some w \<Rightarrow>
          (case getTokenMetadata contractAddress of
             None \<Rightarrow> Inl ExternalFailure
           | Some md \<Rightarrow>
               (case getTokenBalances w [contractAddress] of
                  None \<Rightarrow> Inl ExternalFailure
                | Some tokenBalances \<Rightarrow> erc20_loop rt contractAddress (decimals md) tokenBalances)))"

subsection \<open>contractDeploymentTransactions (lines 145-193)\<close>

text \<open>
  A transfer as the service returns it: \<open>to\<close> is a string or \<open>null\<close> (\<open>None\<close>). The
  query is \<open>transactionConfig\<close> with an optional \<open>pageKey\<close>; a response carries the page's
  transfers and an optional \<open>pageKey\<close>.
\<close>

record transfer =
  tx_from :: string
  tx_to :: "string option"
  tx_hash :: string

record transfersQuery =
  fromBlock :: string
  toBlock :: string
  fromAddress :: string
  excludeZeroValue :: bool
  category :: "string list"
  q_pageKey :: "string option"

record transfersResponse =
  transfers :: "transfer list"
  pageKey :: "string option"

definition transactionConfig :: "string \<Rightarrow> transfersQuery" where
  "transactionConfig walletAddress =
     \<lparr>fromBlock = ''0x0'', toBlock = ''latest'', fromAddress = walletAddress,
      excludeZeroValue = False, category = [''external''], q_pageKey = None\<rparr>"

text \<open>
  \<open>while (response.pageKey)\<close> tests truthiness: a missing key and the empty string both
  end the loop.
\<close>

definition has_cursor :: "transfersResponse \<Rightarrow> bool" where
  "has_cursor response = (case pageKey response of None \<Rightarrow> False | Some k \<Rightarrow> truthy (JStr k))"

text \<open>
  Lines 162-169. The loop runs as long as the service keeps returning a page key, so it
  is a partial function: \<open>None\<close> is the loop that never ends. \<open>calls\<close> is not a variable
  of the script: it records the queries passed to \<open>getAssetTransfers\<close>, in order.
\<close>

partial_function (option) drain_loop ::
  "(transfersQuery \<Rightarrow> transfersResponse option) \<Rightarrow> transfersQuery \<Rightarrow> transfersResponse
     \<Rightarrow> transfer list \<Rightarrow> transfersQuery list \<Rightarrow> (exn + transfer list \<times> transfersQuery list) option" where
  "drain_loop getAssetTransfers config response acc calls =
     (if has_cursor response then
        (case getAssetTransfers (config\<lparr>q_pageKey := pageKey response\<rparr>) of
           None \<Rightarrow> Some (Inl ExternalFailure)
         | Some response' \<Rightarrow>
             drain_loop getAssetTransfers config response' (acc @ transfers response')
               (calls @ [config\<lparr>q_pageKey := pageKey response\<rparr>]))
      else Some (Inr (acc, calls)))"

text \<open>Lines 150-169.\<close>

definition drain ::
  "(transfersQuery \<Rightarrow> transfersResponse option) \<Rightarrow> transfersQuery
     \<Rightarrow> (exn + transfer list \<times> transfersQuery list) option" where
  "drain getAssetTransfers config =
     (case getAssetTransfers config of
        None \<Rightarrow> Some (Inl ExternalFailure)
      | Some response \<Rightarrow> drain_loop getAssetTransfers config response (transfers response) [config])"

record receipt =
  transactionHash :: string

record deploymentTxn =
  d_from :: string
  d_to :: "string option"
  d_hash :: "string option"
  d_value :: int

text \<open>
  Lines 173-192. \<open>getTransactionReceipt\<close> returns \<open>None\<close> when the call is rejected and
  \<open>Some None\<close> when the service has no receipt (\<open>null\<close>); \<open>receipt?.transactionHash\<close> is
  then \<open>undefined\<close>, here \<open>None\<close>. \<open>Promise.all\<close> keeps the results in the order of the
  promises and rejects as soon as one of them does.
\<close>

definition promise_all :: "'a option list \<Rightarrow> exn + 'a list" where
  "promise_all results = (case those results of None \<Rightarrow> Inl ExternalFailure | Some rs \<Rightarrow> Inr rs)"

definition deployments_of ::
  "(string \<Rightarrow> receipt option option) \<Rightarrow> string \<Rightarrow> transfer list \<Rightarrow> exn + deploymentTxn list" where
  "deployments_of getTransactionReceipt walletAddress all_transfers =
     (let deployments = filter (\<lambda>t. tx_to t = None) all_transfers;
          txHashes = map tx_hash deployments
      in case promise_all (map getTransactionReceipt txHashes) of
           Inl e \<Rightarrow> Inl e
         | Inr txReceipts \<Rightarrow>
             Inr (map (\<lambda>r. \<lparr>d_from = walletAddress, d_to = None,
                            d_hash = map_option transactionHash r, d_value = 0\<rparr>) txReceipts))"

definition contractDeploymentTransactions ::
  "(transfersQuery \<Rightarrow> transfersResponse option) \<Rightarrow> (string \<Rightarrow> receipt option option) \<Rightarrow> string
     \<Rightarrow> (exn + deploymentTxn list) option" where
  "contractDeploymentTransactions getAssetTransfers getTransactionReceipt walletAddress =
     (case drain getAssetTransfers (transactionConfig walletAddress) of
        None \<Rightarrow> None
      | Some (Inl e) \<Rightarrow> Some (Inl e)
      | Some (Inr (all_transfers, calls)) \<Rightarrow>
          Some (deployments_of getTransactionReceipt walletAddress all_transfers))"

subsection \<open>nft (lines 196-254)\<close>

text \<open>An owned NFT; \<open>raw_metadata\<close> is \<open>nft.raw.metadata\<close>, \<open>None\<close> when it is missing.\<close>

record ownedNft =
  tokenId :: string
  nft_balance :: string
  tokenType :: string
  raw_metadata :: "metadata option"

record inventory =
  inv_balance :: jsnum
  nftData :: "metadata list"

text \<open>Lines 220-223. The matcher is called only when filter and metadata both exist.\<close>

definition metadata_match :: "runtime \<Rightarrow> metadata option \<Rightarrow> ownedNft \<Rightarrow> exn + bool" where
  "metadata_match rt nftMetadata n =
     (if nftMetadata \<noteq> None \<and> raw_metadata n \<noteq> None
      then filterNFTMetadata rt (raw_metadata n) nftMetadata
      else Inr True)"

text \<open>
  Lines 225-227. \<open>nftMetadata.tokenId\<close> raises when the filter is absent; \<open>&&\<close> does not
  evaluate its right operand when \<open>match\<close> is already false.
\<close>

definition tokenId_match :: "runtime \<Rightarrow> metadata option \<Rightarrow> ownedNft \<Rightarrow> bool \<Rightarrow> exn + bool" where
  "tokenId_match rt nftMetadata n match =
     (case nftMetadata of
        None \<Rightarrow> Inl TypeError
      | Some f \<Rightarrow>
          if truthy (get_field (props f) ''tokenId'') then
            (if match then
               (case toString rt (get_field (props f) ''tokenId'') of
                  None \<Rightarrow> Inl TypeError
                | Some s \<Rightarrow> Inr (tokenId n = s))
             else Inr False)
          else Inr match)"

text \<open>Lines 229-247, the body of \<open>if (match)\<close>.\<close>

definition add_balance :: "runtime \<Rightarrow> inventory \<Rightarrow> ownedNft \<Rightarrow> inventory" where
  "add_balance rt output n =
     (if isNaN (StringToNumber rt (nft_balance n)) then output
      else output\<lparr>inv_balance := num_add rt (inv_balance output) (StringToNumber rt (nft_balance n))\<rparr>)"

definition tagged_metadata :: "runtime \<Rightarrow> ownedNft \<Rightarrow> metadata \<Rightarrow> metadata" where
  "tagged_metadata rt n md =
     md\<lparr>props := set_field ''tokenType'' (JStr (tokenType n))
                   (set_field ''tokenId'' (JNum (StringToNumber rt (tokenId n))) (props md))\<rparr>"

definition push_metadata :: "runtime \<Rightarrow> inventory \<Rightarrow> ownedNft \<Rightarrow> inventory" where
  "push_metadata rt output n =
     (case raw_metadata n of
        None \<Rightarrow> output
      | Some md \<Rightarrow> output\<lparr>nftData := nftData output @ [tagged_metadata rt n md]\<rparr>)"

text \<open>Lines 218-227: the value of \<open>match\<close> when line 229 tests it.\<close>

definition nft_match :: "runtime \<Rightarrow> metadata option \<Rightarrow> ownedNft \<Rightarrow> exn + bool" where
  "nft_match rt nftMetadata n =
     (case metadata_match rt nftMetadata n of
        Inl e \<Rightarrow> Inl e
      | Inr match1 \<Rightarrow> tokenId_match rt nftMetadata n match1)"

text \<open>Lines 217-248, one iteration.\<close>

definition nft_step :: "runtime \<Rightarrow> metadata option \<Rightarrow> inventory \<Rightarrow> ownedNft \<Rightarrow> exn + inventory" where
  "nft_step rt nftMetadata output n =
     (case nft_match rt nftMetadata n of
        Inl e \<Rightarrow> Inl e
      | Inr match \<Rightarrow>
          Inr (if match then push_metadata rt (add_balance rt output n) n else output))"

fun nft_loop :: "runtime \<Rightarrow> metadata option \<Rightarrow> ownedNft list \<Rightarrow> inventory \<Rightarrow> exn + inventory" where
  "nft_loop rt nftMetadata [] output = Inr output"
| "nft_loop rt nftMetadata (n # rest) output =
     (case nft_step rt nftMetadata output n of
        Inl e \<Rightarrow> Inl e
      | Inr output' \<Rightarrow> nft_loop rt nftMetadata rest output')"

definition nft ::
  "runtime \<Rightarrow> (string \<Rightarrow> string list \<Rightarrow> ownedNft list option) \<Rightarrow> string option \<Rightarrow> string
     \<Rightarrow> metadata option \<Rightarrow> exn + inventory" where
  "nft rt getNftsForOwner walletAddress nftContractAddress nftMetadata =
     (case walletAddress of
        None \<Rightarrow> Inr \<lparr>inv_balance = Fin 0, nftData = []\<rparr>
      | Some w \<Rightarrow>
          (case getNftsForOwner w [nftContractAddress] of
             None \<Rightarrow> Inl ExternalFailure
           | Some ownedNfts \<Rightarrow> nft_loop rt nftMetadata ownedNfts \<lparr>inv_balance = Fin 0, nftData = []\<rparr>))"

subsection \<open>A runtime for the worked examples\<close>

text \<open>
  The examples need the built-in conversions at a few concrete arguments. This runtime
  reads a string of decimal digits as that natural number and every other string as
  NaN, prints a natural number in decimal, adds finite numbers exactly, lower-cases the
  letters A to Z, and gives native functions the source text that V8 gives them.
  ECMAScript computes the same on the arguments the examples use (short digit strings,
  ASCII words, small natural numbers).
\<close>

definition lower_char :: "char \<Rightarrow> char" where
  "lower_char c =
     (case map_of (zip ''ABCDEFGHIJKLMNOPQRSTUVWXYZ'' ''abcdefghijklmnopqrstuvwxyz'') c of
        None \<Rightarrow> c
      | Some d \<Rightarrow> d)"

definition digit_value :: "char \<Rightarrow> nat option" where
  "digit_value c = map_of (zip ''0123456789'' [0, 1, 2, 3, 4, 5, 6, 7, 8, 9]) c"

fun read_digits :: "string \<Rightarrow> nat \<Rightarrow> nat option" where
  "read_digits [] acc = Some acc"
| "read_digits (c # cs) acc =
     (case digit_value c of None \<Rightarrow> None | Some d \<Rightarrow> read_digits cs (10 * acc + d))"

fun show_digits :: "nat \<Rightarrow> string" where
  "show_digits n =
     (if n < 10 then [''0123456789'' ! n]
      else show_digits (n div 10) @ [''0123456789'' ! (n mod 10)])"

fun example_add :: "jsnum \<Rightarrow> jsnum \<Rightarrow> jsnum" where
  "example_add (Fin x) (Fin y) = Fin (x + y)"
| "example_add NaN b = NaN"
| "example_add a NaN = NaN"
| "example_add PosInf NegInf = NaN"
| "example_add NegInf PosInf = NaN"
| "example_add PosInf b = PosInf"
| "example_add a PosInf = PosInf"
| "example_add NegInf b = NegInf"
| "example_add a NegInf = NegInf"

fun example_show :: "jsnum \<Rightarrow> string" where
  "example_show NaN = ''NaN''"
| "example_show PosInf = ''Infinity''"
| "example_show NegInf = ''-Infinity''"
| "example_show (Fin q) = show_digits (nat \<lfloor>q\<rfloor>)"

definition example_runtime :: runtime where
  "example_runtime =
     \<lparr>StringToNumber = (\<lambda>s. case read_digits s 0 of None \<Rightarrow> NaN | Some n \<Rightarrow> Fin (of_nat n)),
      NumberToString = example_show,
      StringToBigInt = (\<lambda>s. map_option int (read_digits s 0)),
      num_add = example_add,
      toLowerCase = map lower_char,
      NativeFunctionString = (\<lambda>name. ''function '' @ name @ ''() { [native code] }'')\<rparr>"

subsection \<open>Notions of the specification\<close>

text \<open>
  The lower-cased name of a trait whose \<open>trait_type\<close> is a string, the test that every
  trait of a list is so named, and the test that no trait of a list has, lower-cased, the
  name of a property of \<open>Object.prototype\<close>.
\<close>

definition trait_key :: "runtime \<Rightarrow> attr \<Rightarrow> string" where
  "trait_key rt a = (case trait_type a of JStr s \<Rightarrow> toLowerCase rt s | _ \<Rightarrow> [])"

definition string_named :: "attr list \<Rightarrow> bool" where
  "string_named as = list_all (\<lambda>a. case trait_type a of JStr s \<Rightarrow> True | _ \<Rightarrow> False) as"

definition ordinary_named :: "runtime \<Rightarrow> attr list \<Rightarrow> bool" where
  "ordinary_named rt as = list_all (\<lambda>a. inherited (trait_key rt a) = None) as"

text \<open>
  The specification's reading of the Color/Red example: the attributes contain a trait
  of the given name, compared case-insensitively, whose value loosely equals the given
  one.
\<close>

definition contains_trait :: "runtime \<Rightarrow> attr list \<Rightarrow> string \<Rightarrow> jsval \<Rightarrow> bool" where
  "contains_trait rt ra name v =
     list_ex (\<lambda>a. trait_key rt a = toLowerCase rt name \<and> loose_eq rt (attr_value a) v) ra"

text \<open>
  What the code compares instead: the value of the last trait of that lower-cased name,
  \<open>undefined\<close> when there is none.
\<close>

definition last_trait_value :: "runtime \<Rightarrow> attr list \<Rightarrow> string \<Rightarrow> jsval" where
  "last_trait_value rt ra k =
     (case find (\<lambda>a. trait_key rt a = k) (rev ra) of None \<Rightarrow> JUndefined | Some a \<Rightarrow> attr_value a)"

text \<open>
  The NFT inventory in closed form. An owned NFT is counted when \<open>match\<close> is true for
  it. The terms of the aggregate balance are the balances of the counted NFTs that
  convert to a number, in wallet order; the records are the tagged metadata of the
  counted NFTs that have metadata, in wallet order. \<open>none_raises\<close> says that the match
  raises for no NFT of the list.
\<close>

definition counted :: "runtime \<Rightarrow> metadata option \<Rightarrow> ownedNft \<Rightarrow> bool" where
  "counted rt nftMetadata n = (nft_match rt nftMetadata n = Inr True)"

definition balance_terms :: "runtime \<Rightarrow> metadata option \<Rightarrow> ownedNft list \<Rightarrow> jsnum list" where
  "balance_terms rt nftMetadata ns =
     map (\<lambda>n. StringToNumber rt (nft_balance n))
       (filter (\<lambda>n. counted rt nftMetadata n \<and> \<not> isNaN (StringToNumber rt (nft_balance n))) ns)"

definition record_of :: "runtime \<Rightarrow> ownedNft \<Rightarrow> metadata list" where
  "record_of rt n = (case raw_metadata n of None \<Rightarrow> [] | Some md \<Rightarrow> [tagged_metadata rt n md])"

definition pushed_records :: "runtime \<Rightarrow> metadata option \<Rightarrow> ownedNft list \<Rightarrow> metadata list" where
  "pushed_records rt nftMetadata ns = concat (map (record_of rt) (filter (counted rt nftMetadata) ns))"

definition none_raises :: "runtime \<Rightarrow> metadata option \<Rightarrow> ownedNft list \<Rightarrow> bool" where
  "none_raises rt nftMetadata ns =
     list_all (\<lambda>n. case nft_match rt nftMetadata n of Inl e \<Rightarrow> False | Inr b \<Rightarrow> True) ns"

text \<open>
  A paged source seen from the drain: \<open>serves f config q pages\<close> says that the source
  answers the query \<open>q\<close> with the first page, every page but the last carries a cursor,
  the source answers the configuration extended with that cursor with the next page,
  and the last page carries no cursor.
\<close>

fun serves ::
  "(transfersQuery \<Rightarrow> transfersResponse option) \<Rightarrow> transfersQuery \<Rightarrow> transfersQuery
     \<Rightarrow> transfersResponse list \<Rightarrow> bool" where
  "serves f config q [] = False"
| "serves f config q [r] = (f q = Some r \<and> \<not> has_cursor r)"
| "serves f config q (r # r' # rs) =
     (f q = Some r \<and> has_cursor r \<and> serves f config (config\<lparr>q_pageKey := pageKey r\<rparr>) (r' # rs))"

text \<open>The queries the drain is expected to issue for these pages.\<close>

definition expected_calls :: "transfersQuery \<Rightarrow> transfersResponse list \<Rightarrow> transfersQuery list" where
  "expected_calls config pages = config # map (\<lambda>r. config\<lparr>q_pageKey := pageKey r\<rparr>) (butlast pages)"

subsection \<open>Records and filters of the worked examples\<close>

definition color_red_filter :: metadata where
  "color_red_filter =
     \<lparr>props = [], attributes = Some [\<lparr>trait_type = JStr ''Color'', attr_value = JStr ''Red''\<rparr>]\<rparr>"

definition two_colors :: "attr list" where
  "two_colors = [\<lparr>trait_type = JStr ''color'', attr_value = JStr ''Red''\<rparr>,
                 \<lparr>trait_type = JStr ''Color'', attr_value = JStr ''Blue''\<rparr>]"

definition red_last :: metadata where
  "red_last =
     \<lparr>props = [(''name'', JStr ''x'')],
      attributes = Some [\<lparr>trait_type = JStr ''Color'', attr_value = JStr ''Blue''\<rparr>,
                         \<lparr>trait_type = JStr ''color'', attr_value = JStr ''Red''\<rparr>]\<rparr>"

definition name_and_color_filter :: metadata where
  "name_and_color_filter =
     \<lparr>props = [(''Name'', JStr ''x'')],
      attributes = Some [\<lparr>trait_type = JStr ''COLOR'', attr_value = JStr ''Red''\<rparr>]\<rparr>"

subsection \<open>Sources and services of the worked examples\<close>

definition t1 :: transfer where
  "t1 = \<lparr>tx_from = ''0xw'', tx_to = Some ''0xa'', tx_hash = ''0x01''\<rparr>"

definition t2 :: transfer where
  "t2 = \<lparr>tx_from = ''0xw'', tx_to = None, tx_hash = ''0x02''\<rparr>"

definition t3 :: transfer where
  "t3 = \<lparr>tx_from = ''0xw'', tx_to = Some ''0xb'', tx_hash = ''0x03''\<rparr>"

definition t4 :: transfer where
  "t4 = \<lparr>tx_from = ''0xw'', tx_to = None, tx_hash = ''0x04''\<rparr>"



definition one_page :: "transfersQuery \<Rightarrow> transfersResponse option" where
  "one_page q = Some \<lparr>transfers = [t1, t2, t3, t4], pageKey = None\<rparr>"

text \<open>A receipt for the second transfer, no receipt (\<open>null\<close>) for the fourth.\<close>

definition example_receipts :: "string \<Rightarrow> receipt option option" where
  "example_receipts h =
     (if h = ''0x02'' then Some (Some \<lparr>transactionHash = ''0x02''\<rparr>)
      else if h = ''0x04'' then Some None
      else None)"

text \<open>
  An entry of the balance list that reports a balance for the contract: the address is
  the contract's and the balance is a non-empty string.
\<close>

definition reports_balance :: "string \<Rightarrow> tokenBalanceEntry \<Rightarrow> bool" where
  "reports_balance contractAddress tb =
     (tb_contractAddress tb = contractAddress
      \<and> (case tb_tokenBalance tb of None \<Rightarrow> False | Some s \<Rightarrow> s \<noteq> []))"

definition zero_amount :: TokenAmount where
  "zero_amount = \<lparr>ta_balance = 0, ta_decimals = Fin 0\<rparr>"

definition decimals_18 :: "string \<Rightarrow> tokenMetadata option" where
  "decimals_18 contractAddress = Some \<lparr>decimals = Some (Fin 18)\<rparr>"

definition decimals_0 :: "string \<Rightarrow> tokenMetadata option" where
  "decimals_0 contractAddress = Some \<lparr>decimals = Some (Fin 0)\<rparr>"

definition decimals_unknown :: "string \<Rightarrow> tokenMetadata option" where
  "decimals_unknown contractAddress = Some \<lparr>decimals = None\<rparr>"

definition balance_failed :: "string \<Rightarrow> string list \<Rightarrow> tokenBalanceEntry list option" where
  "balance_failed w cs = Some [\<lparr>tb_contractAddress = ''0xc'', tb_tokenBalance = None\<rparr>]"

definition balance_5 :: "string \<Rightarrow> string list \<Rightarrow> tokenBalanceEntry list option" where
  "balance_5 w cs = Some [\<lparr>tb_contractAddress = ''0xc'', tb_tokenBalance = Some ''5''\<rparr>]"

definition balance_other :: "string \<Rightarrow> string list \<Rightarrow> tokenBalanceEntry list option" where
  "balance_other w cs = Some [\<lparr>tb_contractAddress = ''0xd'', tb_tokenBalance = Some ''5''\<rparr>]"

text \<open>The filter \<open>{}\<close>, the filter \<open>{tokenId: 0}\<close>, and two owned NFTs.\<close>

definition no_filter :: metadata where
  "no_filter = \<lparr>props = [], attributes = None\<rparr>"

definition tokenId_0_filter :: metadata where
  "tokenId_0_filter = \<lparr>props = [(''tokenId'', JNum (Fin 0))], attributes = None\<rparr>"

definition bare_nft :: ownedNft where
  "bare_nft = \<lparr>tokenId = ''5'', nft_balance = ''1'', tokenType = ''ERC721'', raw_metadata = None\<rparr>"

definition odd_balance_nft :: ownedNft where
  "odd_balance_nft =
     \<lparr>tokenId = ''7'', nft_balance = ''many'', tokenType = ''ERC1155'',
      raw_metadata = Some \<lparr>props = [(''name'', JStr ''x'')], attributes = None\<rparr>\<rparr>"

definition bare_nft_2 :: ownedNft where
  "bare_nft_2 = \<lparr>tokenId = ''6'', nft_balance = ''2'', tokenType = ''ERC1155'', raw_metadata = None\<rparr>"

definition owns_bare_nft :: "string \<Rightarrow> string list \<Rightarrow> ownedNft list option" where
  "owns_bare_nft w cs = Some [bare_nft]"

definition owns_two_bare :: "string \<Rightarrow> string list \<Rightarrow> ownedNft list option" where
  "owns_two_bare w cs = Some [bare_nft, bare_nft_2]"


section \<open>Properties of the matcher\<close>

subsection \<open>Evaluation lemmas\<close>

lemma lower_Color: "toLowerCase example_runtime ''Color'' = ''color''"
  by (simp add: example_runtime_def lower_char_def)

lemma lower_color: "toLowerCase example_runtime ''color'' = ''color''"
  by (simp add: example_runtime_def lower_char_def)

lemma lower_COLOR: "toLowerCase example_runtime ''COLOR'' = ''color''"
  by (simp add: example_runtime_def lower_char_def)

lemma lower_Name: "toLowerCase example_runtime ''Name'' = ''name''"
  by (simp add: example_runtime_def lower_char_def)

lemma lower_name: "toLowerCase example_runtime ''name'' = ''name''"
  by (simp add: example_runtime_def lower_char_def)

lemma example_Red: "StringToNumber example_runtime ''Red'' = NaN"
  by (simp add: example_runtime_def digit_value_def)

lemma inherited_color: "inherited ''color'' = None"
  by (simp add: inherited_def)

lemma inherited_name: "inherited ''name'' = None"
  by (simp add: inherited_def)

lemma loose_eq_Red:
  "StringToNumber rt ''Red'' = NaN \<Longrightarrow> loose_eq rt v (JStr ''Red'') = (v = JStr ''Red'')"
  by (cases v) (auto simp: loose_eq_def)

lemma lower_constructor: "toLowerCase example_runtime ''constructor'' = ''constructor''"
  by (simp add: example_runtime_def lower_char_def)

lemma lower_proto: "toLowerCase example_runtime ''__proto__'' = ''__proto__''"
  by (simp add: example_runtime_def lower_char_def)

lemma lower_size: "toLowerCase example_runtime ''size'' = ''size''"
  by (simp add: example_runtime_def lower_char_def)

subsection \<open>The matcher on a record that exists\<close>

text \<open>With a record the top-level loop never raises: it is a conjunction over the entries.\<close>

lemma top_level_loop_present:
  "top_level_loop rt (Some m) es =
     Inr (list_all (\<lambda>(k, v). \<not> field_differs m (toLowerCase rt k) v) es)"
  by (induction es) auto

lemma filter_present:
  "filterNFTMetadata rt (Some m) (Some f) =
     (if \<not> list_all (\<lambda>(k, v). \<not> field_differs m (toLowerCase rt k) v) (topLevelAttrs f) then Inr False
      else if attributes_rejected (Some m) f then Inr False
      else nested_check rt m f)"
  by (simp add: filterNFTMetadata_def top_level_loop_present)

lemma find_snoc:
  "find P (xs @ [x]) = (case find P xs of None \<Rightarrow> (if P x then Some x else None) | Some y \<Rightarrow> Some y)"
  by (induction xs) auto

text \<open>
  Assignments leave the own properties of other names alone, and a name that
  \<open>Object.prototype\<close> does not have reads as the own property or \<open>undefined\<close>.
\<close>

lemma assign_own:
  "k \<noteq> ''__proto__'' \<Longrightarrow> own (assign obj k' v) k = (if k = k' then Some v else own obj k)"
  by (simp add: assign_def)

lemma inherited_not_proto: "inherited k = None \<Longrightarrow> k \<noteq> ''__proto__''"
  by (auto simp: inherited_def)

lemma read_nested_ordinary:
  "inherited k = None \<Longrightarrow>
   read_nested obj k = Prim (case own obj k of None \<Rightarrow> JUndefined | Some v \<Rightarrow> v)"
  by (simp add: read_nested_def split: option.splits)

text \<open>
  When every trait name is a string, building \<open>nestedAttrs\<close> succeeds, and under any
  name but \<open>__proto__\<close> the object owns the value of the last trait of that lower-cased
  name, or else what it owned before.
\<close>

lemma build_nestedAttrs_named:
  "string_named ra \<Longrightarrow>
   \<exists>obj. build_nestedAttrs rt ra acc = Inr obj \<and>
     (\<forall>k. k \<noteq> ''__proto__'' \<longrightarrow>
        own obj k =
          (case find (\<lambda>a. trait_key rt a = k) (rev ra) of
             None \<Rightarrow> own acc k
           | Some a \<Rightarrow> Some (attr_value a)))"
proof (induction ra arbitrary: acc)
  case Nil
  then show ?case by simp
next
  case (Cons a ra)
  from Cons.prems obtain s where s: "trait_type a = JStr s" and rest: "string_named ra"
    by (auto simp: string_named_def split: jsval.splits)
  define acc' where "acc' = assign acc (toLowerCase rt s) (attr_value a)"
  from Cons.IH [OF rest, of acc']
  obtain obj where
    b: "build_nestedAttrs rt ra acc' = Inr obj" and
    r: "\<And>k. k \<noteq> ''__proto__'' \<Longrightarrow> own obj k =
        (case find (\<lambda>a. trait_key rt a = k) (rev ra) of
           None \<Rightarrow> own acc' k
         | Some a \<Rightarrow> Some (attr_value a))"
    by blast
  have "build_nestedAttrs rt (a # ra) acc = Inr obj"
    using s b by (simp add: acc'_def)
  moreover have "own obj k =
        (case find (\<lambda>a. trait_key rt a = k) (rev (a # ra)) of
           None \<Rightarrow> own acc k
         | Some a \<Rightarrow> Some (attr_value a))" if k: "k \<noteq> ''__proto__''" for k
  proof (cases "find (\<lambda>a. trait_key rt a = k) (rev ra)")
    case None
    have key: "trait_key rt a = toLowerCase rt s" using s by (simp add: trait_key_def)
    show ?thesis
      using None key k by (auto simp: r find_snoc acc'_def assign_own)
  next
    case (Some b)
    then show ?thesis using k by (simp add: r find_snoc)
  qed
  ultimately show ?case by blast
qed

subsection \<open>No filter, empty filter\<close>

text \<open>
  C1, as amended. With an absent filter the matcher returns true for every record, an
  absent one included. With an empty filter (no top-level field, no attributes list) it
  returns true for every record that exists, and false for an absent record: line 61
  rejects an absent record whenever a filter object was passed.
\<close>

theorem C1_absent_or_empty_filter:
  "filterNFTMetadata rt r None = Inr True
   \<and> filterNFTMetadata rt (Some m) (Some \<lparr>props = [], attributes = None\<rparr>) = Inr True
   \<and> filterNFTMetadata rt None (Some \<lparr>props = [], attributes = None\<rparr>) = Inr False"
  by (simp add: filterNFTMetadata_def topLevelAttrs_def attributes_rejected_def nested_check_def
      split: option.splits)

text \<open>
  C1 as stated fails: for the absent record and the empty filter \<open>{}\<close> the matcher
  returns false.
\<close>

theorem C1_counterexample:
  "filterNFTMetadata example_runtime None (Some \<lparr>props = [], attributes = None\<rparr>) = Inr False"
  by (simp add: filterNFTMetadata_def topLevelAttrs_def attributes_rejected_def)

subsection \<open>Top-level fields\<close>

text \<open>
  What lines 42-46 compute for a filter of one top-level field: the filter's key is
  lower-cased and looked up as it is among the record's fields, whose own names are not
  normalised.
\<close>

lemma single_field_filter:
  "k \<noteq> ''attributes'' \<Longrightarrow>
   filterNFTMetadata rt (Some m) (Some \<lparr>props = [(k, v)], attributes = None\<rparr>) =
     Inr (\<not> field_differs m (toLowerCase rt k) v)"
  by (simp add: filter_present topLevelAttrs_def attributes_rejected_def nested_check_def
      split: option.splits)

lemma top_level_necessary:
  "filterNFTMetadata rt (Some m) (Some f) = Inr True \<Longrightarrow> (k, v) \<in> set (topLevelAttrs f) \<Longrightarrow>
   \<not> field_differs m (toLowerCase rt k) v"
  by (auto simp: filter_present list_all_iff split: if_splits)

text \<open>
  C2, the code at the failing input. The record \<open>{Name: "x"}\<close> and the filter
  \<open>{Name: "x"}\<close> hold the same value under the same field, and the matcher returns
  false: it reads \<open>nftMetadata["name"]\<close>, which is \<open>undefined\<close>.
\<close>

theorem C2_mixed_case_key:
  "filterNFTMetadata example_runtime
     (Some \<lparr>props = [(''Name'', JStr ''x'')], attributes = None\<rparr>)
     (Some \<lparr>props = [(''Name'', JStr ''x'')], attributes = None\<rparr>) = Inr False"
  by (simp add: filter_present topLevelAttrs_def field_differs_def read_property_def
      strict_eq_prop_def lower_Name inherited_name)

text \<open>The same filter matches the record \<open>{name: "x"}\<close>, whose field is spelt in lower case.\<close>

lemma lower_case_record_key:
  "filterNFTMetadata example_runtime
     (Some \<lparr>props = [(''name'', JStr ''x'')], attributes = None\<rparr>)
     (Some \<lparr>props = [(''Name'', JStr ''x'')], attributes = None\<rparr>) = Inr True"
  by (simp add: single_field_filter field_differs_def read_property_def strict_eq_prop_def lower_Name)

subsection \<open>Length of the attributes lists\<close>

text \<open>
  Let the filter hold an attributes list \<open>fa\<close>. For a record that exists, if its
  attributes are missing and \<open>fa\<close> is not empty, or its attributes list is strictly
  shorter than \<open>fa\<close>, the matcher returns false, whatever the traits on either side are
  (it does not even raise on a trait whose name is not a string, which any comparison of
  contents would: the length is tested first). For an absent record and a non-empty \<open>fa\<close>
  it returns false when the filter has no top-level field.
\<close>

lemma longer_filter_rejected:
  assumes "attributes f = Some fa"
  shows "((case attributes m of None \<Rightarrow> fa \<noteq> [] | Some ra \<Rightarrow> length ra < length fa) \<longrightarrow>
            filterNFTMetadata rt (Some m) (Some f) = Inr False)
       \<and> (fa \<noteq> [] \<and> topLevelAttrs f = [] \<longrightarrow> filterNFTMetadata rt None (Some f) = Inr False)"
proof
  show "(case attributes m of None \<Rightarrow> fa \<noteq> [] | Some ra \<Rightarrow> length ra < length fa) \<longrightarrow>
            filterNFTMetadata rt (Some m) (Some f) = Inr False"
    using assms by (auto simp: filter_present attributes_rejected_def split: option.splits)
  show "fa \<noteq> [] \<and> topLevelAttrs f = [] \<longrightarrow> filterNFTMetadata rt None (Some f) = Inr False"
    using assms by (simp add: filterNFTMetadata_def attributes_rejected_def)
qed

lemma attributes_only_absent_record:
  "filterNFTMetadata example_runtime None (Some color_red_filter) = Inr False"
  by (simp add: filterNFTMetadata_def attributes_rejected_def color_red_filter_def topLevelAttrs_def)

text \<open>
  C3, the code at the failing input. The record is absent and the filter is
  \<open>{name: "x", attributes: [{trait_type: "Color", value: "Red"}]}\<close>, whose attributes
  list is longer than the record's. The matcher does not return false: line 43 reads a
  property of \<open>undefined\<close> and raises a TypeError before lines 49-58 are reached. The
  comment of line 48 and the guards of lines 50 and 61 return false for an absent
  record, and so does the same filter without its top-level field (the lemma above).
\<close>

theorem C3_absent_record_raises:
  "filterNFTMetadata example_runtime None
     (Some \<lparr>props = [(''name'', JStr ''x'')],
            attributes = Some [\<lparr>trait_type = JStr ''Color'', attr_value = JStr ''Red''\<rparr>]\<rparr>)
   = Inl TypeError"
  by (simp add: filterNFTMetadata_def topLevelAttrs_def)

subsection \<open>Nested attributes\<close>

lemma compare_nested_named:
  "string_named fa \<Longrightarrow>
   compare_nested rt obj fa =
     Inr (list_all (\<lambda>p. loose_eq_prop rt (read_nested obj (trait_key rt p)) (attr_value p)) fa)"
proof (induction fa)
  case Nil
  then show ?case by simp
next
  case (Cons p fa)
  from Cons.prems obtain s where s: "trait_type p = JStr s" and rest: "string_named fa"
    by (auto simp: string_named_def split: jsval.splits)
  show ?case using s Cons.IH [OF rest] by (simp add: trait_key_def)
qed

text \<open>
  The nested comparison in closed form, for filter traits whose names
  \<open>Object.prototype\<close> does not have.
\<close>

lemma nested_check_named:
  assumes "attributes m = Some ra" "attributes f = Some fa" "string_named ra" "string_named fa"
    "ordinary_named rt fa"
  shows "nested_check rt m f =
     Inr (list_all (\<lambda>p. loose_eq rt (last_trait_value rt ra (trait_key rt p)) (attr_value p)) fa)"
proof -
  have e: "own empty_object k = None" for k
    by (simp add: empty_object_def)
  from build_nestedAttrs_named [OF assms(3), of rt empty_object]
  obtain obj where
    b: "build_nestedAttrs rt ra empty_object = Inr obj" and
    r: "\<And>k. k \<noteq> ''__proto__'' \<Longrightarrow> own obj k =
          (case find (\<lambda>a. trait_key rt a = k) (rev ra) of
             None \<Rightarrow> None
           | Some a \<Rightarrow> Some (attr_value a))"
    unfolding e by blast
  have read: "read_nested obj k = Prim (last_trait_value rt ra k)" if "inherited k = None" for k
    using that r [OF inherited_not_proto [OF that]]
    by (simp add: read_nested_ordinary last_trait_value_def split: option.splits)
  have "list_all (\<lambda>p. loose_eq_prop rt (read_nested obj (trait_key rt p)) (attr_value p)) fa =
        list_all (\<lambda>p. loose_eq rt (last_trait_value rt ra (trait_key rt p)) (attr_value p)) fa"
    using assms(5) by (induction fa) (simp_all add: ordinary_named_def read loose_eq_prop_def)
  then show ?thesis
    using assms(1,2) b by (simp add: nested_check_def compare_nested_named [OF assms(4)])
qed

text \<open>
  C4, as amended. Let the record hold an attributes list \<open>ra\<close> whose trait names are all
  strings. If the filter holds an attributes list \<open>fa\<close> whose trait names are all
  strings, none of them, lower-cased, the name of a property of \<open>Object.prototype\<close>
  (\<open>constructor\<close>, \<open>__proto__\<close> and the like), and the top-level fields pass, the matcher
  returns true exactly when \<open>fa\<close> is not longer than \<open>ra\<close> and, for every pair of \<open>fa\<close>,
  the value of the last trait of \<open>ra\<close> with the same lower-cased name (\<open>undefined\<close> when
  there is none) loosely equals the pair's value. In particular, on a runtime that reads
  "Red" as NaN and lower-cases "Color" to "color", the Color/Red filter matches exactly
  when the last trait named "color", case-insensitively, has the value "Red". The
  Color/Red filter is rejected when the record has no attributes, and when the record is
  absent.
\<close>

theorem C4_last_trait_decides:
  assumes "attributes m = Some ra" and "string_named ra"
  shows "(attributes f = Some fa \<and> string_named fa \<and> ordinary_named rt fa
            \<and> top_level_loop rt (Some m) (topLevelAttrs f) = Inr True \<longrightarrow>
          filterNFTMetadata rt (Some m) (Some f) =
            Inr (length fa \<le> length ra
                 \<and> list_all (\<lambda>p. loose_eq rt (last_trait_value rt ra (trait_key rt p)) (attr_value p)) fa))
       \<and> (StringToNumber rt ''Red'' = NaN \<and> toLowerCase rt ''Color'' = ''color'' \<longrightarrow>
          filterNFTMetadata rt (Some m) (Some color_red_filter) =
            Inr (last_trait_value rt ra ''color'' = JStr ''Red''))
       \<and> (attributes m' = None \<longrightarrow>
          filterNFTMetadata rt (Some m') (Some color_red_filter) = Inr False)
       \<and> filterNFTMetadata rt None (Some color_red_filter) = Inr False"
proof (intro conjI impI)
  assume a: "attributes f = Some fa \<and> string_named fa \<and> ordinary_named rt fa
            \<and> top_level_loop rt (Some m) (topLevelAttrs f) = Inr True"
  then have nc: "nested_check rt m f =
      Inr (list_all (\<lambda>p. loose_eq rt (last_trait_value rt ra (trait_key rt p)) (attr_value p)) fa)"
    using assms by (simp add: nested_check_named)
  have rej: "attributes_rejected (Some m) f = (length ra < length fa)"
    using a assms(1) by (auto simp: attributes_rejected_def)
  have top: "list_all (\<lambda>(k, v). \<not> field_differs m (toLowerCase rt k) v) (topLevelAttrs f)"
    using a by (simp add: top_level_loop_present)
  show "filterNFTMetadata rt (Some m) (Some f) =
            Inr (length fa \<le> length ra
                 \<and> list_all (\<lambda>p. loose_eq rt (last_trait_value rt ra (trait_key rt p)) (attr_value p)) fa)"
    using top rej nc by (auto simp: filter_present)
next
  assume red: "StringToNumber rt ''Red'' = NaN \<and> toLowerCase rt ''Color'' = ''color''"
  have named: "string_named [\<lparr>trait_type = JStr ''Color'', attr_value = JStr ''Red''\<rparr>]"
    by (simp add: string_named_def)
  have ordinary: "ordinary_named rt [\<lparr>trait_type = JStr ''Color'', attr_value = JStr ''Red''\<rparr>]"
    using red by (simp add: ordinary_named_def trait_key_def inherited_color)
  have nc: "nested_check rt m color_red_filter = Inr (last_trait_value rt ra ''color'' = JStr ''Red'')"
    using nested_check_named [OF assms(1) _ assms(2) named ordinary, of color_red_filter] red
    by (simp add: color_red_filter_def trait_key_def loose_eq_Red)
  have empty: "ra = [] \<Longrightarrow> last_trait_value rt ra ''color'' \<noteq> JStr ''Red''"
    by (simp add: last_trait_value_def)
  show "filterNFTMetadata rt (Some m) (Some color_red_filter) =
            Inr (last_trait_value rt ra ''color'' = JStr ''Red'')"
    using assms(1) empty
    by (cases ra) (simp_all add: filter_present nc attributes_rejected_def,
        simp_all add: color_red_filter_def topLevelAttrs_def)
next
  assume "attributes m' = None"
  then show "filterNFTMetadata rt (Some m') (Some color_red_filter) = Inr False"
    by (simp add: filter_present attributes_rejected_def color_red_filter_def topLevelAttrs_def)
next
  show "filterNFTMetadata rt None (Some color_red_filter) = Inr False"
    by (simp add: filterNFTMetadata_def attributes_rejected_def color_red_filter_def topLevelAttrs_def)
qed

text \<open>
  A record whose last trait named "color" is Red, against a filter with a top-level
  field and a trait, and against the Color/Red filter; a record without attributes; the
  absent record.
\<close>

theorem C4_last_trait_decides_witness:
  "filterNFTMetadata example_runtime (Some red_last) (Some name_and_color_filter) = Inr True
   \<and> filterNFTMetadata example_runtime (Some red_last) (Some color_red_filter) = Inr True
   \<and> filterNFTMetadata example_runtime (Some \<lparr>props = [], attributes = None\<rparr>) (Some color_red_filter)
       = Inr False
   \<and> filterNFTMetadata example_runtime None (Some color_red_filter) = Inr False"
  using C4_last_trait_decides [of red_last
      "[\<lparr>trait_type = JStr ''Color'', attr_value = JStr ''Blue''\<rparr>,
        \<lparr>trait_type = JStr ''color'', attr_value = JStr ''Red''\<rparr>]"
      name_and_color_filter
      "[\<lparr>trait_type = JStr ''COLOR'', attr_value = JStr ''Red''\<rparr>]"
      example_runtime "\<lparr>props = [], attributes = None\<rparr>"]
  by (simp add: red_last_def name_and_color_filter_def string_named_def ordinary_named_def
      topLevelAttrs_def field_differs_def read_property_def strict_eq_prop_def inherited_name
      inherited_color lower_Name lower_Color lower_color lower_COLOR
      last_trait_value_def trait_key_def loose_eq_def example_Red)

text \<open>
  C4 as stated fails when two traits share a name: the record's attributes contain the
  trait "color" with value "Red", and the matcher returns false, because the later trait
  "Color" with value "Blue" overwrote it in \<open>nestedAttrs\<close>.
\<close>

theorem C4_counterexample:
  "contains_trait example_runtime two_colors ''color'' (JStr ''Red'')
   \<and> filterNFTMetadata example_runtime (Some \<lparr>props = [], attributes = Some two_colors\<rparr>)
        (Some color_red_filter) = Inr False"
  by (simp add: contains_trait_def two_colors_def trait_key_def lower_color lower_Color loose_eq_def
      filterNFTMetadata_def color_red_filter_def topLevelAttrs_def attributes_rejected_def
      nested_check_def read_nested_def assign_def empty_object_def loose_eq_prop_def)

text \<open>
  Two filters that name a property of \<open>Object.prototype\<close>. The read
  \<open>nestedAttrs["constructor"]\<close> yields the function \<open>Object\<close>, which is not loosely equal
  to \<open>undefined\<close>, although no trait of the record has that name. The assignment
  \<open>nestedAttrs["__proto__"] = "a"\<close> is ignored, and the read yields \<open>Object.prototype\<close>,
  so a record trait of that name is not found.
\<close>

lemma inherited_constructor_read:
  "filterNFTMetadata example_runtime
     (Some \<lparr>props = [], attributes = Some [\<lparr>trait_type = JStr ''size'', attr_value = JStr ''L''\<rparr>]\<rparr>)
     (Some \<lparr>props = [], attributes = Some [\<lparr>trait_type = JStr ''constructor'', attr_value = JUndefined\<rparr>]\<rparr>)
   = Inr False"
  by (simp add: filterNFTMetadata_def topLevelAttrs_def attributes_rejected_def
      nested_check_def read_nested_def assign_def empty_object_def loose_eq_prop_def
      lower_size lower_constructor inherited_def to_primitive_def loose_eq_def)

lemma proto_assignment_ignored:
  "filterNFTMetadata example_runtime
     (Some \<lparr>props = [], attributes = Some [\<lparr>trait_type = JStr ''__proto__'', attr_value = JStr ''a''\<rparr>]\<rparr>)
     (Some \<lparr>props = [], attributes = Some [\<lparr>trait_type = JStr ''__proto__'', attr_value = JStr ''a''\<rparr>]\<rparr>)
   = Inr False"
  by (simp add: filterNFTMetadata_def topLevelAttrs_def attributes_rejected_def
      nested_check_def read_nested_def assign_def empty_object_def loose_eq_prop_def
      lower_proto inherited_def to_primitive_def loose_eq_def)

section \<open>Properties of the flows\<close>

subsection \<open>Draining the paged source\<close>

lemma serves_first: "serves f config q (r # rs) \<Longrightarrow> f q = Some r"
  by (cases rs) simp_all

text \<open>
  The loop, entered with the response \<open>r\<close> in hand while the source still has the
  pages \<open>rs\<close> to serve after it.
\<close>

lemma drain_loop_pages:
  "serves f config q (r # rs) \<Longrightarrow>
   drain_loop f config r acc calls =
     Some (Inr (acc @ concat (map transfers rs),
                calls @ map (\<lambda>r. config\<lparr>q_pageKey := pageKey r\<rparr>) (butlast (r # rs))))"
proof (induction rs arbitrary: r q acc calls)
  case Nil
  then show ?case by (simp add: drain_loop.simps)
next
  case (Cons r' rs)
  from Cons.prems have c: "has_cursor r"
    and s: "serves f config (config\<lparr>q_pageKey := pageKey r\<rparr>) (r' # rs)"
    by simp_all
  from serves_first [OF s] have n: "f (config\<lparr>q_pageKey := pageKey r\<rparr>) = Some r'" .
  show ?case
    using c n Cons.IH [OF s, of "acc @ transfers r'" "calls @ [config\<lparr>q_pageKey := pageKey r\<rparr>]"]
    by (subst drain_loop.simps) simp
qed

lemma drain_serves:
  assumes "serves f config config pages"
  shows "drain f config = Some (Inr (concat (map transfers pages), expected_calls config pages))"
proof (cases pages)
  case Nil
  with assms show ?thesis by simp
next
  case (Cons r rs)
  with assms have f: "f config = Some r" by (simp add: serves_first)
  show ?thesis
    using assms f drain_loop_pages [of f config config r rs "transfers r" "[config]"]
    unfolding Cons by (simp add: drain_def expected_calls_def)
qed



subsection \<open>Deployment history\<close>

lemma those_map_Some:
  "\<forall>x\<in>set xs. g x = Some (r x) \<Longrightarrow> those (map g xs) = Some (map r xs)"
  by (induction xs) simp_all

text \<open>
  C6. When the drain returns the transfers \<open>ts\<close> and the receipt call succeeds for the
  hash of every transfer whose \<open>to\<close> is null, with the result \<open>receipts h\<close> for the hash
  \<open>h\<close>, the flow returns one entry per transfer of \<open>ts\<close> whose \<open>to\<close> is null, in the order
  of \<open>ts\<close>; each entry has \<open>from\<close> the wallet, \<open>to\<close> null, value 0 and the hash of the receipt
  fetched for that transfer's hash (\<open>undefined\<close> when the service has no receipt).
\<close>

theorem C6_deployments_in_order:
  assumes "drain getAssetTransfers (transactionConfig walletAddress) = Some (Inr (ts, calls))"
    and "\<forall>t\<in>set ts. tx_to t = None \<longrightarrow> getTransactionReceipt (tx_hash t) = Some (receipts (tx_hash t))"
  shows "contractDeploymentTransactions getAssetTransfers getTransactionReceipt walletAddress =
     Some (Inr (map (\<lambda>t. \<lparr>d_from = walletAddress, d_to = None,
                           d_hash = map_option transactionHash (receipts (tx_hash t)),
                           d_value = 0\<rparr>)
                  (filter (\<lambda>t. tx_to t = None) ts)))"
proof -
  have "those (map getTransactionReceipt (map tx_hash (filter (\<lambda>t. tx_to t = None) ts))) =
        Some (map receipts (map tx_hash (filter (\<lambda>t. tx_to t = None) ts)))"
    using assms(2) by (intro those_map_Some) auto
  then show ?thesis
    using assms(1)
    by (simp add: contractDeploymentTransactions_def deployments_of_def promise_all_def comp_def)
qed

text \<open>
  Four transfers of which the second and the fourth have \<open>to\<close> null: two entries, in
  that order.
\<close>

theorem C6_deployments_in_order_witness:
  "contractDeploymentTransactions one_page example_receipts ''0xw'' =
     Some (Inr [\<lparr>d_from = ''0xw'', d_to = None, d_hash = Some ''0x02'', d_value = 0\<rparr>,
                \<lparr>d_from = ''0xw'', d_to = None, d_hash = None, d_value = 0\<rparr>])"
  using C6_deployments_in_order [of one_page "''0xw''" "[t1, t2, t3, t4]" "[transactionConfig ''0xw'']"
      example_receipts "\<lambda>h. if h = ''0x02'' then Some \<lparr>transactionHash = ''0x02''\<rparr> else None"]
    drain_serves [of one_page "transactionConfig ''0xw''"
      "[\<lparr>transfers = [t1, t2, t3, t4], pageKey = None\<rparr>]"]
  by (simp add: one_page_def has_cursor_def expected_calls_def example_receipts_def
      t1_def t2_def t3_def t4_def)

subsection \<open>Fungible-token balance\<close>

lemma erc20_loop_unknown: "erc20_loop rt c None tbs = Inr zero_amount"
  by (induction tbs) (simp_all add: zero_amount_def split: option.splits)

lemma erc20_loop_none:
  "find (reports_balance c) tbs = None \<Longrightarrow> erc20_loop rt c dec tbs = Inr zero_amount"
  by (induction tbs) (auto simp: zero_amount_def reports_balance_def split: option.splits if_splits)

lemma erc20_loop_found:
  "find (reports_balance c) tbs = Some tb \<Longrightarrow> tb_tokenBalance tb = Some s \<Longrightarrow> truthy (JNum d) \<Longrightarrow>
   erc20_loop rt c (Some d) tbs =
     (case StringToBigInt rt s of None \<Rightarrow> Inl SyntaxError
      | Some n \<Rightarrow> Inr \<lparr>ta_balance = n, ta_decimals = d\<rparr>)"
proof (induction tbs)
  case Nil
  then show ?case by simp
next
  case (Cons x tbs)
  show ?case
  proof (cases "reports_balance c x")
    case True
    with Cons.prems have "x = tb" by simp
    with True Cons.prems show ?thesis
      by (simp add: reports_balance_def)
  next
    case False
    with Cons.prems have "find (reports_balance c) tbs = Some tb" by simp
    from Cons.IH [OF this Cons.prems(2,3)] False show ?thesis
      by (auto simp: reports_balance_def split: option.splits)
  qed
qed

text \<open>
  C7, as amended. Let both service calls succeed for a wallet that is given. The flow
  returns \<open>{0, 0}\<close>, raising nothing, when the decimals are unknown (\<open>null\<close>) or no entry of
  the balance list reports a balance for the contract (none has the contract's address,
  or those that have it carry a \<open>null\<close> or empty balance). When the first entry that
  reports a balance carries the string \<open>s\<close>, \<open>BigInt(s)\<close> is \<open>n\<close> and the decimals are a
  number \<open>d\<close> that is truthy, the flow returns \<open>{n, d}\<close>. Without a wallet it returns
  \<open>{0, 0}\<close>.
\<close>

theorem C7_token_balance:
  assumes "getTokenMetadata c = Some md" and "getTokenBalances w [c] = Some tbs"
  shows "(decimals md = None \<or> find (reports_balance c) tbs = None \<longrightarrow>
            erc20 rt getTokenMetadata getTokenBalances (Some w) c = Inr zero_amount)
       \<and> (find (reports_balance c) tbs = Some tb \<and> tb_tokenBalance tb = Some s
            \<and> decimals md = Some d \<and> truthy (JNum d) \<and> StringToBigInt rt s = Some n \<longrightarrow>
            erc20 rt getTokenMetadata getTokenBalances (Some w) c =
              Inr \<lparr>ta_balance = n, ta_decimals = d\<rparr>)
       \<and> erc20 rt getTokenMetadata getTokenBalances None c = Inr zero_amount"
  using assms
  by (auto simp: erc20_def erc20_loop_unknown erc20_loop_none erc20_loop_found zero_amount_def)

text \<open>
  Unknown decimals; a list without the contract; a balance of 5 with 18 decimals; no
  wallet.
\<close>

theorem C7_token_balance_witness:
  "erc20 example_runtime decimals_unknown balance_5 (Some ''0xw'') ''0xc'' = Inr zero_amount
   \<and> erc20 example_runtime decimals_18 balance_other (Some ''0xw'') ''0xc'' = Inr zero_amount
   \<and> erc20 example_runtime decimals_18 balance_5 (Some ''0xw'') ''0xc'' =
       Inr \<lparr>ta_balance = 5, ta_decimals = Fin 18\<rparr>
   \<and> erc20 example_runtime decimals_18 balance_5 None ''0xc'' = Inr zero_amount"
  using C7_token_balance [where getTokenMetadata = decimals_unknown and c = "''0xc''"
      and md = "\<lparr>decimals = None\<rparr>" and getTokenBalances = balance_5 and w = "''0xw''"
      and tbs = "[\<lparr>tb_contractAddress = ''0xc'', tb_tokenBalance = Some ''5''\<rparr>]"
      and rt = example_runtime]
    C7_token_balance [where getTokenMetadata = decimals_18 and c = "''0xc''"
      and md = "\<lparr>decimals = Some (Fin 18)\<rparr>" and getTokenBalances = balance_other
      and w = "''0xw''"
      and tbs = "[\<lparr>tb_contractAddress = ''0xd'', tb_tokenBalance = Some ''5''\<rparr>]"
      and rt = example_runtime]
    C7_token_balance [where getTokenMetadata = decimals_18 and c = "''0xc''"
      and md = "\<lparr>decimals = Some (Fin 18)\<rparr>" and getTokenBalances = balance_5
      and w = "''0xw''"
      and tbs = "[\<lparr>tb_contractAddress = ''0xc'', tb_tokenBalance = Some ''5''\<rparr>]"
      and tb = "\<lparr>tb_contractAddress = ''0xc'', tb_tokenBalance = Some ''5''\<rparr>"
      and s = "''5''" and d = "Fin 18" and rt = example_runtime and n = 5]
  by (simp add: decimals_unknown_def decimals_18_def balance_5_def balance_other_def
      reports_balance_def example_runtime_def digit_value_def)

text \<open>
  C7 as stated fails: the contract is in the returned list (the service reports an
  error for it, with a \<open>null\<close> balance) and the decimals are known to be 18, yet the
  flow returns \<open>{0, 0}\<close> and not a balance paired with 18 decimals.
\<close>

theorem C7_counterexample:
  "''0xc'' \<in> set (map tb_contractAddress (the (balance_failed ''0xw'' [''0xc''])))
   \<and> map_option decimals (decimals_18 ''0xc'') = Some (Some (Fin 18))
   \<and> erc20 example_runtime decimals_18 balance_failed (Some ''0xw'') ''0xc'' =
       Inr \<lparr>ta_balance = 0, ta_decimals = Fin 0\<rparr>"
  by (simp add: erc20_def decimals_18_def balance_failed_def)

text \<open>
  A token of zero decimals of which the wallet holds 5: line 100 tests the decimals for
  truthiness, and the flow reports a balance of 0.
\<close>

lemma erc20_zero_decimals:
  "erc20 example_runtime decimals_0 balance_5 (Some ''0xw'') ''0xc'' = Inr zero_amount"
  by (simp add: erc20_def decimals_0_def balance_5_def zero_amount_def)

subsection \<open>NFT inventory\<close>

lemma example_1: "StringToNumber example_runtime ''1'' = Fin 1"
  by (simp add: example_runtime_def digit_value_def)

lemma example_2: "StringToNumber example_runtime ''2'' = Fin 2"
  by (simp add: example_runtime_def digit_value_def)



lemma example_add_Fin: "num_add example_runtime (Fin x) (Fin y) = Fin (x + y)"
  by (simp add: example_runtime_def)

text \<open>
  The loop in closed form: when the match raises for no NFT of the wallet, the flow
  returns the sum, from 0 and in wallet order, of the balance terms, and the pushed
  records.
\<close>

lemma nft_step_closed:
  assumes "nft_match rt nftMetadata n = Inr b"
  shows "nft_step rt nftMetadata out n =
     Inr \<lparr>inv_balance = foldl (num_add rt) (inv_balance out) (balance_terms rt nftMetadata [n]),
          nftData = nftData out @ pushed_records rt nftMetadata [n]\<rparr>"
  using assms
  by (cases b)
    (simp_all add: nft_step_def balance_terms_def pushed_records_def counted_def record_of_def
      add_balance_def push_metadata_def split: option.splits)

lemma balance_terms_append:
  "balance_terms rt f (xs @ ys) = balance_terms rt f xs @ balance_terms rt f ys"
  by (simp add: balance_terms_def)

lemma pushed_records_append:
  "pushed_records rt f (xs @ ys) = pushed_records rt f xs @ pushed_records rt f ys"
  by (simp add: pushed_records_def)

lemma nft_loop_closed:
  "none_raises rt nftMetadata ns \<Longrightarrow>
   nft_loop rt nftMetadata ns out =
     Inr \<lparr>inv_balance = foldl (num_add rt) (inv_balance out) (balance_terms rt nftMetadata ns),
          nftData = nftData out @ pushed_records rt nftMetadata ns\<rparr>"
proof (induction ns arbitrary: out)
  case Nil
  then show ?case by (simp add: balance_terms_def pushed_records_def)
next
  case (Cons n ns)
  from Cons.prems obtain b where b: "nft_match rt nftMetadata n = Inr b"
    and rest: "none_raises rt nftMetadata ns"
    by (auto simp: none_raises_def split: sum.splits)
  have split: "balance_terms rt nftMetadata (n # ns) =
      balance_terms rt nftMetadata [n] @ balance_terms rt nftMetadata ns"
    "pushed_records rt nftMetadata (n # ns) =
      pushed_records rt nftMetadata [n] @ pushed_records rt nftMetadata ns"
    using balance_terms_append [of rt nftMetadata "[n]" ns]
      pushed_records_append [of rt nftMetadata "[n]" ns] by simp_all
  show ?case
    by (simp add: nft_step_closed [OF b] Cons.IH [OF rest] split)
qed

lemma nft_closed:
  assumes "getNftsForOwner w [c] = Some ns" and "none_raises rt nftMetadata ns"
  shows "nft rt getNftsForOwner (Some w) c nftMetadata =
     Inr \<lparr>inv_balance = foldl (num_add rt) (Fin 0) (balance_terms rt nftMetadata ns),
          nftData = pushed_records rt nftMetadata ns\<rparr>"
  using assms by (simp add: nft_def nft_loop_closed)

lemma none_raises_insert:
  "none_raises rt f (pre @ post) \<Longrightarrow> nft_match rt f n = Inr b \<Longrightarrow>
   none_raises rt f (pre @ n # post)"
  by (simp add: none_raises_def)


lemma bare_counted:
  "nft_match example_runtime (Some no_filter) bare_nft = Inr True"
  "nft_match example_runtime (Some no_filter) bare_nft_2 = Inr True"
  "nft_match example_runtime (Some no_filter) odd_balance_nft = Inr True"
  by (simp_all add: nft_match_def metadata_match_def tokenId_match_def no_filter_def get_field_def
      bare_nft_def bare_nft_2_def odd_balance_nft_def filterNFTMetadata_def topLevelAttrs_def
      attributes_rejected_def nested_check_def)


text \<open>
  What lines 225-227 do when the filter's token id is truthy: the NFT matches only if
  its token id is the string of the filter's.
\<close>

lemma tokenId_match_truthy:
  assumes "truthy (get_field (props f) ''tokenId'')"
    and "tokenId_match rt (Some f) n match = Inr True"
  shows "match \<and> toString rt (get_field (props f) ''tokenId'') = Some (tokenId n)"
  using assms by (auto simp: tokenId_match_def split: if_splits option.splits)

text \<open>
  C9, the code at the failing input. The filter \<open>{tokenId: 0}\<close> specifies the token id
  0; the wallet owns one NFT, of token id "5", balance "1" and no metadata. Line 225
  tests the filter's token id for truthiness, 0 is falsy, the comparison is skipped, and
  the NFT is counted.
\<close>

theorem C9_tokenId_zero_ignored:
  "nft example_runtime owns_bare_nft (Some ''0xw'') ''0xc'' (Some tokenId_0_filter) =
     Inr \<lparr>inv_balance = Fin 1, nftData = []\<rparr>"
  by (simp add: nft_def owns_bare_nft_def nft_step_def nft_match_def metadata_match_def
      tokenId_match_def bare_nft_def tokenId_0_filter_def get_field_def add_balance_def
      push_metadata_def isNaN_def example_1 example_add_Fin)

text \<open>
  C10. For an owned NFT \<open>n\<close> without metadata the metadata test yields true whatever the
  filter is, and it yields true for any NFT when the filter is absent: the matcher is
  not called. Let the wallet own \<open>pre\<close>, then \<open>n\<close>, then \<open>post\<close>; let \<open>n\<close> pass the token-id
  test and its balance be a number, and let the match raise for none of the others. Then
  the flow returns; the balance of \<open>n\<close> is a term of the aggregate balance, at its place
  between the terms of \<open>pre\<close> and those of \<open>post\<close>; and \<open>nftData\<close> holds the records of \<open>pre\<close>
  and \<open>post\<close> and nothing for \<open>n\<close>. So the balance can exceed the number of entries.
\<close>

theorem C10_bare_nft_counted:
  assumes "raw_metadata n = None"
  shows "metadata_match rt nftMetadata n = Inr True
       \<and> metadata_match rt None n' = Inr True
       \<and> (getNftsForOwner w [c] = Some (pre @ n # post)
            \<and> none_raises rt (Some f) (pre @ post)
            \<and> tokenId_match rt (Some f) n True = Inr True
            \<and> \<not> isNaN (StringToNumber rt (nft_balance n)) \<longrightarrow>
          nft rt getNftsForOwner (Some w) c (Some f) =
            Inr \<lparr>inv_balance =
                   foldl (num_add rt) (Fin 0)
                     (balance_terms rt (Some f) pre @ StringToNumber rt (nft_balance n)
                        # balance_terms rt (Some f) post),
                 nftData = pushed_records rt (Some f) pre @ pushed_records rt (Some f) post\<rparr>)"
proof (intro conjI impI)
  show mm: "metadata_match rt nftMetadata n = Inr True" for nftMetadata
    using assms by (simp add: metadata_match_def)
  show "metadata_match rt None n' = Inr True"
    by (simp add: metadata_match_def)
  assume a: "getNftsForOwner w [c] = Some (pre @ n # post)
            \<and> none_raises rt (Some f) (pre @ post)
            \<and> tokenId_match rt (Some f) n True = Inr True
            \<and> \<not> isNaN (StringToNumber rt (nft_balance n))"
  then have m: "nft_match rt (Some f) n = Inr True"
    by (simp add: nft_match_def mm)
  have t: "balance_terms rt (Some f) (pre @ n # post) =
      balance_terms rt (Some f) pre @ StringToNumber rt (nft_balance n) # balance_terms rt (Some f) post"
    using a m by (simp add: balance_terms_def counted_def)
  have r: "pushed_records rt (Some f) (pre @ n # post) =
      pushed_records rt (Some f) pre @ pushed_records rt (Some f) post"
    using assms by (simp add: pushed_records_def record_of_def)
  from a have g: "getNftsForOwner w [c] = Some (pre @ n # post)"
    and nr: "none_raises rt (Some f) (pre @ post)" by simp_all
  show "nft rt getNftsForOwner (Some w) c (Some f) =
            Inr \<lparr>inv_balance =
                   foldl (num_add rt) (Fin 0)
                     (balance_terms rt (Some f) pre @ StringToNumber rt (nft_balance n)
                        # balance_terms rt (Some f) post),
                 nftData = pushed_records rt (Some f) pre @ pushed_records rt (Some f) post\<rparr>"
    using nft_closed [where getNftsForOwner = getNftsForOwner and w = w and c = c,
        OF g none_raises_insert [OF nr m]] by (simp only: t r)
qed

text \<open>
  A wallet of two NFTs without metadata, of balances "1" and "2", under the filter \<open>{}\<close>:
  the flow returns the balance 3 and no entry.
\<close>

theorem C10_bare_nft_counted_witness:
  "metadata_match example_runtime (Some color_red_filter) bare_nft_2 = Inr True
   \<and> nft example_runtime owns_two_bare (Some ''0xw'') ''0xc'' (Some no_filter) =
       Inr \<lparr>inv_balance = Fin 3, nftData = []\<rparr>"
proof -
  have terms: "balance_terms example_runtime (Some no_filter) [bare_nft] = [Fin 1]"
    by (simp add: balance_terms_def counted_def bare_counted isNaN_def)
      (simp add: bare_nft_def example_1)
  have recs: "pushed_records example_runtime (Some no_filter) [bare_nft] = []"
    by (simp add: pushed_records_def record_of_def bare_nft_def)
  have empty: "balance_terms example_runtime (Some no_filter) [] = []"
    "pushed_records example_runtime (Some no_filter) [] = []"
    by (simp_all add: balance_terms_def pushed_records_def)
  have tok: "tokenId_match example_runtime (Some no_filter) bare_nft_2 True = Inr True"
    by (simp add: tokenId_match_def no_filter_def get_field_def)
  have num: "StringToNumber example_runtime (nft_balance bare_nft_2) = Fin 2"
    by (simp add: bare_nft_2_def example_2)
  have none: "raw_metadata bare_nft_2 = None"
    by (simp add: bare_nft_2_def)
  from C10_bare_nft_counted [OF none, where rt = example_runtime and f = no_filter
      and nftMetadata = "Some color_red_filter" and getNftsForOwner = owns_two_bare
      and w = "''0xw''" and c = "''0xc''" and pre = "[bare_nft]" and post = "[]"]
  show ?thesis
    by (simp add: owns_two_bare_def none_raises_def bare_counted tok num isNaN_def terms recs empty
        example_add_Fin)
qed

end
